theory Spec2Isabelle
  imports Main "HOL-Library.Word"
begin

section \<open>The repair dispatch service of \<^verbatim>\<open>satellite/repair/repairer/repairer.go\<close>\<close>

text \<open>
  The service pulls injured segments from a repair queue, runs at most
  \<^verbatim>\<open>Config.MaxRepair\<close> repair jobs at a time and classifies each job's outcome.
  The queue, the segment repairer, the irreparable store, the job limiter, the clock, the
  logger and the metrics sink are collaborators of the service. What the first five return
  is given by arbitrary functions on an external state, and every call made on a
  collaborator other than the clock is written to a chronological list of events, so that
  a theorem about the calls the code makes holds for every behaviour of the collaborators.
  Line numbers are those of \<^verbatim>\<open>repairer.go\<close>.
\<close>

subsection \<open>Time\<close>

text \<open>
  A \<^verbatim>\<open>time.Time\<close> is an instant, counted in nanoseconds from the zero Time
  (January 1, year 1, 00:00 UTC), for which \<^verbatim>\<open>IsZero\<close> holds. A
  \<^verbatim>\<open>time.Duration\<close> is a 64-bit count of nanoseconds; \<^verbatim>\<open>Time.Sub\<close> saturates at
  its bounds.
\<close>

type_synonym time = int
type_synonym Duration = int

definition IsZero :: "time \<Rightarrow> bool" where
  "IsZero t = (t = 0)"

definition minDuration :: Duration where
  "minDuration = - (2 ^ 63)"

definition maxDuration :: Duration where
  "maxDuration = 2 ^ 63 - 1"

definition Sub :: "time \<Rightarrow> time \<Rightarrow> Duration" where
  "Sub t u = (let d = t - u in
     if d < minDuration then minDuration
     else if maxDuration < d then maxDuration
     else d)"

text \<open>\<^verbatim>\<open>Time.Unix\<close>: whole seconds since January 1, 1970 UTC.\<close>

definition Unix :: "time \<Rightarrow> int" where
  "Unix t = t div 1000000000 - 62135596800"

subsection \<open>Segments, errors, contexts\<close>

type_synonym bytes = string

text \<open>The segment detail (\<^verbatim>\<open>*pb.Pointer\<close>) is an opaque payload.\<close>

type_synonym Pointer = string

text \<open>
  \<^verbatim>\<open>internalpb.InjuredSegment\<close>, with the two fields the service reads through
  \<^verbatim>\<open>GetPath\<close> and \<^verbatim>\<open>GetInsertedTime\<close>.
\<close>

record InjuredSegment =
  seg_Path :: bytes
  seg_InsertedTime :: time

definition GetPath :: "InjuredSegment \<Rightarrow> bytes" where
  "GetPath seg = seg_Path seg"

definition GetInsertedTime :: "InjuredSegment \<Rightarrow> time" where
  "GetInsertedTime seg = seg_InsertedTime seg"

text \<open>
  \<^verbatim>\<open>internalpb.IrreparableSegment\<close>. The integer type of the piece counts is declared
  outside this file; \<^verbatim>\<open>LostPieces\<close>, \<^verbatim>\<open>piecesRequired\<close> and
  \<^verbatim>\<open>piecesAvailable\<close> share it (Go subtracts and assigns without a conversion), and
  it is the type parameter \<open>'n\<close> of the data, which the functions of the service take
  at a machine integer \<open>'w word\<close> of any width \<open>'w\<close>. The two 64-bit fields are only
  assigned, from the clock and from the constant 1.
\<close>

record 'n IrreparableSegment =
  Path :: bytes
  SegmentDetail :: Pointer
  LostPieces :: 'n
  LastRepairAttempt :: int
  RepairAttemptCount :: int

text \<open>
  Error values. \<open>irreparableError\<close> is the \<^verbatim>\<open>*irreparableError\<close> a repair can
  return; \<open>Opaque\<close> is any other error value of a collaborator. The last three are the
  values the service builds itself with the \<^verbatim>\<open>errs\<close> package, kept symbolic:
  \<open>Error_Wrap e\<close> is \<^verbatim>\<open>Error.Wrap(e)\<close> of a non-nil \<open>e\<close>, \<open>Error_New f e\<close> is
  \<^verbatim>\<open>Error.New(f, e)\<close>, and \<open>errs_Combined a b\<close> is \<^verbatim>\<open>errs.Combine(a, b)\<close> of two
  non-nil errors. A Go \<^verbatim>\<open>error\<close> that may be nil is an \<open>error option\<close>. An
  \<^verbatim>\<open>*irreparableError\<close> in an error is taken to point to a value: on a nil pointer of
  that type line 166 would panic.
\<close>

datatype 'n error =
    irreparableError (piecesRequired: 'n) (piecesAvailable: 'n) (segmentInfo: Pointer)
  | Opaque string
  | Error_Wrap "'n error"
  | Error_New string "'n error"
  | errs_Combined "'n error" "'n error"

text \<open>\<^verbatim>\<open>errs.Combine\<close> drops nil errors and returns a lone error unchanged.\<close>

fun errs_Combine :: "'n error option \<Rightarrow> 'n error option \<Rightarrow> 'n error option" where
  "errs_Combine None None = None"
| "errs_Combine (Some a) None = Some a"
| "errs_Combine None (Some b) = Some b"
| "errs_Combine (Some a) (Some b) = Some (errs_Combined a b)"

text \<open>
  A context is the one the caller passed in, the one the monitoring task derives from it
  (\<^verbatim>\<open>mon.Task()(&ctx)\<close> replaces \<^verbatim>\<open>ctx\<close>), or one with a deadline.
\<close>

datatype "context" =
    Incoming nat
  | TaskSpan "context"
  | WithDeadline "context" time

subsection \<open>Events and the collaborators\<close>

datatype 'n event =
    E_Acquire "context" int
  | E_Release int
  | E_WithTimeout "context" Duration
  | E_Cancel "context"
  | E_Select "context"
  | E_Go "context" InjuredSegment
  | E_Repair "context" string
  | E_IncrementRepairAttempts "context" "'n IrreparableSegment"
  | E_Delete "context" InjuredSegment
  | E_Debug string
  | E_Error string "'n error"
  | E_Observe string Duration

text \<open>
  \<^verbatim>\<open>Config\<close>. The service reads \<^verbatim>\<open>MaxRepair\<close>, \<^verbatim>\<open>Interval\<close> and
  \<^verbatim>\<open>TotalTimeout\<close>; the other options go to the segment repairer, and the
  floating-point \<^verbatim>\<open>MaxExcessRateOptimalThreshold\<close> among them is left out.
\<close>

record Config =
  MaxRepair :: int
  Interval :: Duration
  Timeout :: Duration
  DownloadTimeout :: Duration
  TotalTimeout :: Duration
  MaxBufferMem :: int
  InMemoryRepair :: bool

text \<open>
  \<^verbatim>\<open>Service\<close>: the configuration and the methods of its collaborators that the file
  calls. \<open>'s\<close> is the state of everything outside the service (queue table, irreparable
  table, storage nodes, clock, the other goroutines). \<^verbatim>\<open>Acquire\<close> is here what the
  call returns to the caller; the units of the limiter are counted in the last
  subsection of the definitions. A call on a collaborator is assumed to return.
\<close>

record ('s, 'n) Service =
  config :: Config
  queue_Select :: "context \<Rightarrow> 's \<Rightarrow> (InjuredSegment \<times> 'n error option) \<times> 's"
  queue_Delete :: "context \<Rightarrow> InjuredSegment \<Rightarrow> 's \<Rightarrow> 'n error option \<times> 's"
  repairer_Repair :: "context \<Rightarrow> string \<Rightarrow> 's \<Rightarrow> (bool \<times> 'n error option) \<times> 's"
  irrDB_IncrementRepairAttempts ::
    "context \<Rightarrow> 'n IrreparableSegment \<Rightarrow> 's \<Rightarrow> 'n error option \<times> 's"
  JobLimiter_Acquire :: "context \<Rightarrow> int \<Rightarrow> 's \<Rightarrow> 'n error option \<times> 's"
  time_Now :: "'s \<Rightarrow> time \<times> 's"

record ('s, 'n) world =
  ext :: 's
  events :: "'n event list"

definition emit :: "'n event \<Rightarrow> ('s, 'n) world \<Rightarrow> ('s, 'n) world" where
  "emit e w = w\<lparr>events := events w @ [e]\<rparr>"

text \<open>A call: the event is written when the call is made, then the collaborator runs.\<close>

definition call :: "'n event \<Rightarrow> ('s \<Rightarrow> 'a \<times> 's) \<Rightarrow> ('s, 'n) world \<Rightarrow> 'a \<times> ('s, 'n) world" where
  "call e f w = (let (r, x) = f (ext w) in (r, w\<lparr>ext := x, events := events w @ [e]\<rparr>))"

definition Now :: "('s, 'n) Service \<Rightarrow> ('s, 'n) world \<Rightarrow> time \<times> ('s, 'n) world" where
  "Now service w = (let (t, x) = time_Now service (ext w) in (t, w\<lparr>ext := x\<rparr>))"

text \<open>The events of a run: those written after the starting point \<open>w\<close>.\<close>

definition emitted :: "('s, 'n) world \<Rightarrow> ('s, 'n) world \<Rightarrow> 'n event list" where
  "emitted w w' = drop (length (events w)) (events w')"

subsection \<open>The worker (lines 152 to 204)\<close>

text \<open>
  Lines 155 to 159: the start time, and the call of \<^verbatim>\<open>Repair\<close>, which returns
  \<^verbatim>\<open>shouldDelete\<close> and \<^verbatim>\<open>err\<close>.
\<close>

definition run_repair ::
  "('s, 'w::len word) Service \<Rightarrow> context \<Rightarrow> InjuredSegment \<Rightarrow> ('s, 'w word) world \<Rightarrow>
   time \<times> bool \<times> 'w word error option \<times> ('s, 'w word) world" where
  "run_repair service ctx seg w =
     (let (workerStartTime, w1) = Now service w;
          w2 = emit (E_Debug ''Limiter running repair on segment'') w1;
          ((shouldDelete, err), w3) =
             call (E_Repair ctx (GetPath seg)) (repairer_Repair service ctx (GetPath seg)) w2
      in (workerStartTime, shouldDelete, err, w3))"

text \<open>
  Lines 162 to 171, for an \<^verbatim>\<open>*irreparableError\<close>: the log line, the record and the call
  of the irreparable store, whose error is returned.
\<close>

definition record_irreparable ::
  "('s, 'w::len word) Service \<Rightarrow> context \<Rightarrow> InjuredSegment \<Rightarrow> 'w word \<Rightarrow> 'w word \<Rightarrow> Pointer \<Rightarrow>
   ('s, 'w word) world \<Rightarrow> 'w word error option \<times> ('s, 'w word) world" where
  "record_irreparable service ctx seg required available info w =
     (let w1 = emit (E_Error
            ''segment could not be repaired! adding to irreparableDB for more attention''
            (irreparableError required available info)) w;
          (now, w2) = Now service w1;
          segmentInfo = \<lparr>Path = GetPath seg,
                         SegmentDetail = info,
                         LostPieces = required - available,
                         LastRepairAttempt = Unix now,
                         RepairAttemptCount = 1\<rparr>
      in call (E_IncrementRepairAttempts ctx segmentInfo)
           (irrDB_IncrementRepairAttempts service ctx segmentInfo) w2)"

text \<open>
  Lines 161 to 180: the classification under \<^verbatim>\<open>shouldDelete\<close>. It returns the new
  value of \<^verbatim>\<open>shouldDelete\<close>; the outer \<^verbatim>\<open>err\<close> is not assigned (the
  \<^verbatim>\<open>err\<close> of line 171 is a new variable of the inner \<^verbatim>\<open>if\<close>).
\<close>

definition classify ::
  "('s, 'w::len word) Service \<Rightarrow> context \<Rightarrow> InjuredSegment \<Rightarrow> 'w word error option \<Rightarrow>
   ('s, 'w word) world \<Rightarrow> bool \<times> ('s, 'w word) world" where
  "classify service ctx seg err w =
     (case err of
        Some (irreparableError required available info) \<Rightarrow>
          (let (err2, w1) = record_irreparable service ctx seg required available info w
           in case err2 of
                Some e2 \<Rightarrow>
                  (False,
                   emit (E_Error
                     ''failed to add segment to irreparableDB! will leave in repair queue'' e2) w1)
              | None \<Rightarrow> (True, w1))
      | Some e \<Rightarrow> (True, emit (E_Error ''unexpected error repairing segment!'' e) w)
      | None \<Rightarrow> (True, emit (E_Debug ''removing repaired segment from repair queue'') w))"

text \<open>
  Lines 182 to 185: the removal from the queue; a failure is combined with \<^verbatim>\<open>err\<close>.
\<close>

definition remove_from_queue ::
  "('s, 'n) Service \<Rightarrow> context \<Rightarrow> InjuredSegment \<Rightarrow> 'n error option \<Rightarrow>
   ('s, 'n) world \<Rightarrow> 'n error option \<times> ('s, 'n) world" where
  "remove_from_queue service ctx seg err w =
     (let (delErr, w1) = call (E_Delete ctx seg) (queue_Delete service ctx seg) w
      in case delErr of
           Some d \<Rightarrow>
             (errs_Combine err
                (Some (Error_New ''failed to remove segment from queue: %v'' d)), w1)
         | None \<Rightarrow> (err, w1))"

text \<open>Lines 160 to 187: classification and removal; returns \<^verbatim>\<open>err\<close>.\<close>

definition settle ::
  "('s, 'w::len word) Service \<Rightarrow> context \<Rightarrow> InjuredSegment \<Rightarrow> bool \<Rightarrow> 'w word error option \<Rightarrow>
   ('s, 'w word) world \<Rightarrow> 'w word error option \<times> ('s, 'w word) world" where
  "settle service ctx seg shouldDelete err w =
     (if shouldDelete then
        (let (shouldDelete2, w1) = classify service ctx seg err w
         in if shouldDelete2 then remove_from_queue service ctx seg err w1
            else (err, w1))
      else (err, w))"

text \<open>
  Lines 192 to 201: the metrics. An observation carries the Duration whose
  \<^verbatim>\<open>Seconds()\<close> the sink receives.
\<close>

definition observe_times ::
  "('s, 'n) Service \<Rightarrow> InjuredSegment \<Rightarrow> time \<Rightarrow> ('s, 'n) world \<Rightarrow> ('s, 'n) world" where
  "observe_times service seg workerStartTime w =
     (let (repairedTime, w1) = Now service w;
          timeForRepair = Sub repairedTime workerStartTime;
          w2 = emit (E_Observe ''time_for_repair'' timeForRepair) w1;
          insertedTime = GetInsertedTime seg
      in if \<not> IsZero insertedTime then
           (let timeSinceQueued = Sub workerStartTime insertedTime
            in emit (E_Observe ''time_since_checker_queue'' timeSinceQueued) w2)
         else w2)"

definition worker ::
  "('s, 'w::len word) Service \<Rightarrow> context \<Rightarrow> InjuredSegment \<Rightarrow> ('s, 'w word) world \<Rightarrow>
   'w word error option \<times> ('s, 'w word) world" where
  "worker service ctx0 seg w =
     (let ctx = TaskSpan ctx0;
          (workerStartTime, shouldDelete, err, w1) = run_repair service ctx seg w;
          (err2, w2) = settle service ctx seg shouldDelete err w1
      in case err2 of
           Some e \<Rightarrow> (Some (Error_Wrap e), w2)
         | None \<Rightarrow> (None, observe_times service seg workerStartTime w2))"

text \<open>Which events are calls on the two stores, and which are observations.\<close>

fun is_Delete :: "'n event \<Rightarrow> bool" where
  "is_Delete (E_Delete c s) = True"
| "is_Delete e = False"

fun is_IncrementRepairAttempts :: "'n event \<Rightarrow> bool" where
  "is_IncrementRepairAttempts (E_IncrementRepairAttempts c r) = True"
| "is_IncrementRepairAttempts e = False"

fun is_Observe :: "'n event \<Rightarrow> bool" where
  "is_Observe (E_Observe n d) = True"
| "is_Observe e = False"

fun is_store_or_log :: "'n event \<Rightarrow> bool" where
  "is_store_or_log (E_Debug m) = True"
| "is_store_or_log (E_Error m e) = True"
| "is_store_or_log (E_IncrementRepairAttempts c r) = True"
| "is_store_or_log (E_Delete c s) = True"
| "is_store_or_log e = False"

text \<open>The records handed to the irreparable store, in order.\<close>

fun irreparable_records :: "'n event list \<Rightarrow> 'n IrreparableSegment list" where
  "irreparable_records [] = []"
| "irreparable_records (E_IncrementRepairAttempts c r # es) = r # irreparable_records es"
| "irreparable_records (e # es) = irreparable_records es"

subsection \<open>The dispatch step (lines 110 to 150)\<close>

text \<open>Line 114: wait until a new job may be spawned.\<close>

definition acquire_unit ::
  "('s, 'n) Service \<Rightarrow> context \<Rightarrow> ('s, 'n) world \<Rightarrow> 'n error option \<times> ('s, 'n) world" where
  "acquire_unit service ctx w = call (E_Acquire ctx 1) (JobLimiter_Acquire service ctx 1) w"

text \<open>
  \<^verbatim>\<open>context.WithTimeout(parent, d)\<close> is \<^verbatim>\<open>WithDeadline(parent, time.Now().Add(d))\<close>.
\<close>

definition context_WithTimeout ::
  "('s, 'n) Service \<Rightarrow> context \<Rightarrow> Duration \<Rightarrow> ('s, 'n) world \<Rightarrow> context \<times> ('s, 'n) world" where
  "context_WithTimeout service parent d w =
     (let (now, w1) = Now service w
      in (WithDeadline parent (now + d), emit (E_WithTimeout parent d) w1))"

text \<open>Lines 128 to 130: the timeout is started, then the queue is asked for a segment.\<close>

definition fetch ::
  "('s, 'n) Service \<Rightarrow> context \<Rightarrow> ('s, 'n) world \<Rightarrow>
   context \<times> InjuredSegment \<times> 'n error option \<times> ('s, 'n) world" where
  "fetch service ctx w =
     (let (ctx2, w1) = context_WithTimeout service ctx (TotalTimeout (config service)) w;
          ((seg, err), w2) = call (E_Select ctx2) (queue_Select service ctx2) w1
      in (ctx2, seg, err, w2))"

text \<open>
  \<open>E_Go ctx seg\<close> is the \<^verbatim>\<open>go\<close> statement of line 140: the goroutine it starts runs
  \<open>job\<close> below with the context and the segment of the event.
\<close>

definition process ::
  "('s, 'n) Service \<Rightarrow> context \<Rightarrow> ('s, 'n) world \<Rightarrow> 'n error option \<times> ('s, 'n) world" where
  "process service ctx0 w =
     (let ctx = TaskSpan ctx0;
          (aerr, w1) = acquire_unit service ctx w
      in case aerr of
           Some e \<Rightarrow> (Some e, w1)
         | None \<Rightarrow>
             (let (ctx2, seg, err, w2) = fetch service ctx w1
              in case err of
                   Some e \<Rightarrow> (Some e, emit (E_Cancel ctx2) (emit (E_Release 1) w2))
                 | None \<Rightarrow>
                     (None,
                      emit (E_Go ctx2 seg)
                        (emit (E_Debug ''Retrieved segment from repair queue'') w2))))"

text \<open>
  Lines 140 to 147, the body of the goroutine: the worker, the log line, then the deferred
  calls, last deferred first.
\<close>

definition job ::
  "('s, 'w::len word) Service \<Rightarrow> context \<Rightarrow> InjuredSegment \<Rightarrow> ('s, 'w word) world \<Rightarrow>
   ('s, 'w word) world" where
  "job service ctx seg w =
     (let (err, w1) = worker service ctx seg w;
          w2 = (case err of
                  Some e \<Rightarrow> emit (E_Error ''repair worker failed:'' e) w1
                | None \<Rightarrow> w1)
      in emit (E_Release 1) (emit (E_Cancel ctx) w2))"

subsection \<open>The drain loop (lines 96 to 107)\<close>

text \<open>
  The loop ends only when a dispatch step fails, so it is a partial function: \<open>None\<close> is a
  loop that never returns. \<^verbatim>\<open>storage.ErrEmptyQueue\<close> is declared outside this file;
  its test \<^verbatim>\<open>Has\<close> is the parameter \<open>ErrEmptyQueue_Has\<close>.
\<close>

partial_function (option) processWhileQueueHasItems ::
  "('n error \<Rightarrow> bool) \<Rightarrow> ('s, 'n) Service \<Rightarrow> context \<Rightarrow> ('s, 'n) world \<Rightarrow>
   ('n error option \<times> ('s, 'n) world) option" where
  "processWhileQueueHasItems ErrEmptyQueue_Has service ctx w =
     (case process service ctx w of
        (Some err, w1) \<Rightarrow>
          if ErrEmptyQueue_Has err then Some (None, w1)
          else Some (Some err, emit (E_Error ''process'' (Error_Wrap err)) w1)
      | (None, w1) \<Rightarrow> processWhileQueueHasItems ErrEmptyQueue_Has service ctx w1)"

declare processWhileQueueHasItems.simps [code]

text \<open>The world after \<open>n\<close> dispatch steps that all returned nil.\<close>

fun dispatched ::
  "('s, 'n) Service \<Rightarrow> context \<Rightarrow> nat \<Rightarrow> ('s, 'n) world \<Rightarrow> ('s, 'n) world option" where
  "dispatched service ctx 0 w = Some w"
| "dispatched service ctx (Suc n) w =
     (case process service ctx w of
        (None, w1) \<Rightarrow> dispatched service ctx n w1
      | (Some err, w1) \<Rightarrow> None)"

fun is_Release :: "'n event \<Rightarrow> bool" where
  "is_Release (E_Release n) = True"
| "is_Release e = False"

fun is_Go :: "'n event \<Rightarrow> bool" where
  "is_Go (E_Go c s) = True"
| "is_Go e = False"

fun is_Select :: "'n event \<Rightarrow> bool" where
  "is_Select (E_Select c) = True"
| "is_Select e = False"

subsection \<open>The job limiter and the goroutines\<close>

text \<open>
  The goroutine that runs \<^verbatim>\<open>Run\<close> and the goroutines that \<^verbatim>\<open>process\<close> starts
  share the semaphore \<^verbatim>\<open>JobLimiter\<close>, made by \<^verbatim>\<open>NewService\<close> with
  \<^verbatim>\<open>MaxRepair\<close> units. Their executions are interleaved: a state holds the units
  taken from the semaphore, the place of the goroutine of \<^verbatim>\<open>Run\<close>, and the place of
  every job that has been started and has not yet released its unit; an action is one
  step of one goroutine. \<^verbatim>\<open>Acquire(ctx, n)\<close> returns nil only when \<open>n\<close> units are
  free and takes them in the same step; \<^verbatim>\<open>Release(n)\<close> gives \<open>n\<close> units back and
  panics when more are given back than were taken.
\<close>

datatype dispatcher =
    AtAcquire        \<comment> \<open>line 114, or between two poll cycles\<close>
  | AtSelect         \<comment> \<open>lines 128 to 130, holding one unit\<close>
  | AtWaitAcquire    \<comment> \<open>line 80: the loop has returned\<close>
  | AtWaitRelease    \<comment> \<open>line 81, holding \<^verbatim>\<open>MaxRepair\<close> units\<close>
  | Returned

datatype jobpc =
    Started          \<comment> \<open>line 140: the goroutine exists\<close>
  | InRepair         \<comment> \<open>line 159: inside \<^verbatim>\<open>Repair\<close>\<close>
  | Repaired         \<comment> \<open>lines 160 to 203\<close>

record sys =
  cur :: int
  dispatcher :: dispatcher
  jobs :: "jobpc list"
  panicked :: bool

datatype action =
    Acquire_ok            \<comment> \<open>line 114 returns nil\<close>
  | Acquire_failed        \<comment> \<open>line 114 returns an error, or the cycle is stopped\<close>
  | Select_empty          \<comment> \<open>line 130 returns the empty-queue error\<close>
  | Select_failed         \<comment> \<open>line 130 returns another error\<close>
  | Select_ok             \<comment> \<open>line 130 returns a segment; line 140 starts its job\<close>
  | Repair_called nat
  | Repair_returned nat
  | Job_released nat      \<comment> \<open>line 141, deferred: the job ends\<close>
  | Wait_acquired         \<comment> \<open>line 80\<close>
  | Wait_released         \<comment> \<open>line 81\<close>

definition can_acquire :: "int \<Rightarrow> int \<Rightarrow> sys \<Rightarrow> bool" where
  "can_acquire cap n s = (n \<le> cap - cur s)"

definition Release :: "int \<Rightarrow> sys \<Rightarrow> sys" where
  "Release n s = (let c = cur s - n in s\<lparr>cur := c, panicked := c < 0\<rparr>)"

fun act :: "int \<Rightarrow> action \<Rightarrow> sys \<Rightarrow> sys option" where
  "act N Acquire_ok s =
     (if dispatcher s = AtAcquire \<and> can_acquire N 1 s
      then Some (s\<lparr>cur := cur s + 1, dispatcher := AtSelect\<rparr>) else None)"
| "act N Acquire_failed s =
     (if dispatcher s = AtAcquire then Some (s\<lparr>dispatcher := AtWaitAcquire\<rparr>) else None)"
| "act N Select_empty s =
     (if dispatcher s = AtSelect then Some (Release 1 s\<lparr>dispatcher := AtAcquire\<rparr>) else None)"
| "act N Select_failed s =
     (if dispatcher s = AtSelect then Some (Release 1 s\<lparr>dispatcher := AtWaitAcquire\<rparr>)
      else None)"
| "act N Select_ok s =
     (if dispatcher s = AtSelect
      then Some (s\<lparr>jobs := jobs s @ [Started], dispatcher := AtAcquire\<rparr>) else None)"
| "act N (Repair_called i) s =
     (if i < length (jobs s) \<and> jobs s ! i = Started
      then Some (s\<lparr>jobs := (jobs s)[i := InRepair]\<rparr>) else None)"
| "act N (Repair_returned i) s =
     (if i < length (jobs s) \<and> jobs s ! i = InRepair
      then Some (s\<lparr>jobs := (jobs s)[i := Repaired]\<rparr>) else None)"
| "act N (Job_released i) s =
     (if i < length (jobs s) \<and> jobs s ! i = Repaired
      then Some (Release 1 (s\<lparr>jobs := take i (jobs s) @ drop (Suc i) (jobs s)\<rparr>))
      else None)"
| "act N Wait_acquired s =
     (if dispatcher s = AtWaitAcquire \<and> can_acquire N N s
      then Some (s\<lparr>cur := cur s + N, dispatcher := AtWaitRelease\<rparr>) else None)"
| "act N Wait_released s =
     (if dispatcher s = AtWaitRelease then Some (Release N s\<lparr>dispatcher := Returned\<rparr>)
      else None)"

text \<open>A panic ends the program. \<open>None\<close> is an action that cannot happen in the state.\<close>

definition step :: "int \<Rightarrow> action \<Rightarrow> sys \<Rightarrow> sys option" where
  "step N a s = (if panicked s then None else act N a s)"

fun run :: "int \<Rightarrow> action list \<Rightarrow> sys \<Rightarrow> sys option" where
  "run N [] s = Some s"
| "run N (a # as) s = (case step N a s of None \<Rightarrow> None | Some s' \<Rightarrow> run N as s')"

text \<open>The state in which \<^verbatim>\<open>Run\<close> starts on a new service.\<close>

definition NewService :: sys where
  "NewService = \<lparr>cur = 0, dispatcher = AtAcquire, jobs = [], panicked = False\<rparr>"

text \<open>The units that the goroutines hold between them.\<close>

definition units :: "int \<Rightarrow> sys \<Rightarrow> int" where
  "units N s = int (length (jobs s)) + (if dispatcher s = AtSelect then 1 else 0)
     + (if dispatcher s = AtWaitRelease then N else 0)"

definition limiter_inv :: "int \<Rightarrow> sys \<Rightarrow> bool" where
  "limiter_inv N s = (cur s = units N s \<and> \<not> panicked s \<and>
     (if dispatcher s = AtWaitRelease then jobs s = [] else cur s \<le> max 0 N))"

subsection \<open>A small service to evaluate the definitions on\<close>

text \<open>
  The external state is the list of queued segments and the clock, which advances by one
  microsecond at each reading. The results of \<^verbatim>\<open>Repair\<close>, of the irreparable store and
  of \<^verbatim>\<open>Delete\<close> are parameters.
\<close>

definition example_service ::
  "bool \<times> 32 word error option \<Rightarrow> 32 word error option \<Rightarrow> 32 word error option \<Rightarrow>
   (InjuredSegment list \<times> time, 32 word) Service" where
  "example_service repaired recorded deleted =
     \<lparr>config = \<lparr>MaxRepair = 2, Interval = 300000000000, Timeout = 300000000000,
                DownloadTimeout = 300000000000, TotalTimeout = 2700000000000,
                MaxBufferMem = 4000000, InMemoryRepair = False\<rparr>,
      queue_Select = (\<lambda>ctx (q, t).
        case q of
          [] \<Rightarrow> ((\<lparr>seg_Path = [], seg_InsertedTime = 0\<rparr>, Some (Opaque ''empty queue'')), (q, t))
        | seg # rest \<Rightarrow> ((seg, None), (rest, t))),
      queue_Delete = (\<lambda>ctx seg x. (deleted, x)),
      repairer_Repair = (\<lambda>ctx path x. (repaired, x)),
      irrDB_IncrementRepairAttempts = (\<lambda>ctx r x. (recorded, x)),
      JobLimiter_Acquire = (\<lambda>ctx n x. (None, x)),
      time_Now = (\<lambda>(q, t). (t, (q, t + 1000)))\<rparr>"

text \<open>
  A segment queued before \<^verbatim>\<open>InsertedTime\<close> existed, and one queued an hour before the
  clock of \<open>example_world\<close>, which starts at second 1600000000 of the Unix epoch.
\<close>

definition legacy_segment :: InjuredSegment where
  "legacy_segment = \<lparr>seg_Path = ''a/b'', seg_InsertedTime = 0\<rparr>"

definition dated_segment :: InjuredSegment where
  "dated_segment = \<lparr>seg_Path = ''c/d'', seg_InsertedTime = 63735593200000000000\<rparr>"

definition example_world :: "InjuredSegment list \<Rightarrow> (InjuredSegment list \<times> time, 32 word) world" where
  "example_world q = \<lparr>ext = (q, 63735596800000000000), events = []\<rparr>"

definition example_Has :: "32 word error \<Rightarrow> bool" where
  "example_Has e = (e = Opaque ''empty queue'')"

section \<open>Properties\<close>

subsection \<open>Events of the single calls\<close>

lemma emit_simps [simp]: "events (emit e w) = events w @ [e]" "ext (emit e w) = ext w"
  by (simp_all add: emit_def)

lemma call_events: "call e f w = (r, w') \<Longrightarrow> events w' = events w @ [e]"
  by (auto simp: call_def split: prod.splits)

lemma Now_events: "Now service w = (t, w') \<Longrightarrow> events w' = events w"
  by (auto simp: Now_def split: prod.splits)

lemma run_repair_events:
  "run_repair service ctx seg w = (t, sd, e, w') \<Longrightarrow>
   events w' = events w @
     [E_Debug ''Limiter running repair on segment'', E_Repair ctx (GetPath seg)]"
  by (auto simp: run_repair_def Let_def split: prod.splits dest!: call_events Now_events)

text \<open>The start time is the first clock reading of the worker.\<close>

lemma run_repair_start:
  "run_repair service ctx seg w = (t, sd, e, w') \<Longrightarrow> t = fst (time_Now service (ext w))"
  by (auto simp: run_repair_def Let_def Now_def call_def split: prod.splits)

lemma record_irreparable_events:
  "record_irreparable service ctx seg required available info w = (e, w') \<Longrightarrow>
   events w' = events w @
     [E_Error ''segment could not be repaired! adding to irreparableDB for more attention''
        (irreparableError required available info),
      E_IncrementRepairAttempts ctx
        \<lparr>Path = GetPath seg, SegmentDetail = info, LostPieces = required - available,
         LastRepairAttempt = Unix (fst (time_Now service (ext w))),
         RepairAttemptCount = 1\<rparr>]"
  apply (simp add: record_irreparable_def Let_def split: prod.splits)
  apply (auto dest!: call_events simp: Now_def split: prod.splits)
  done

lemma observe_times_events:
  "events (observe_times service seg t0 w) = events w @
     (E_Observe ''time_for_repair'' (Sub (fst (time_Now service (ext w))) t0) #
      (if IsZero (GetInsertedTime seg) then []
       else [E_Observe ''time_since_checker_queue'' (Sub t0 (GetInsertedTime seg))]))"
  by (auto simp: observe_times_def Let_def Now_def split: prod.splits)

lemma remove_from_queue_events:
  "remove_from_queue service ctx seg err w = (err', w') \<Longrightarrow>
   events w' = events w @ [E_Delete ctx seg]"
  by (auto simp: remove_from_queue_def split: prod.splits option.splits dest: call_events)

lemma remove_from_queue_err:
  "remove_from_queue service ctx seg (Some e) w = (err', w') \<Longrightarrow>
   err' = Some e \<or>
   (\<exists>d. err' = Some (errs_Combined e (Error_New ''failed to remove segment from queue: %v'' d)))"
  by (auto simp: remove_from_queue_def split: prod.splits option.splits)

lemma acquire_unit_events:
  "acquire_unit service ctx w = (r, w') \<Longrightarrow> events w' = events w @ [E_Acquire ctx 1]"
  by (auto simp: acquire_unit_def dest: call_events)

lemma fetch_events:
  "fetch service ctx w = (ctx2, seg, err, w') \<Longrightarrow>
   ctx2 = WithDeadline ctx (fst (time_Now service (ext w)) + TotalTimeout (config service)) \<and>
   events w' = events w @ [E_WithTimeout ctx (TotalTimeout (config service)), E_Select ctx2]"
  by (auto simp: fetch_def context_WithTimeout_def Now_def Let_def split: prod.splits
      dest!: call_events)

subsection \<open>The cases of the classification\<close>

lemma settle_False: "settle service ctx seg False err w = (err, w)"
  by (simp add: settle_def)

lemma settle_nil:
  "settle service ctx seg True None w =
   remove_from_queue service ctx seg None
     (emit (E_Debug ''removing repaired segment from repair queue'') w)"
  by (simp add: settle_def classify_def)

lemma settle_irreparable_failed:
  "record_irreparable service ctx seg r a i w = (Some e2, w1) \<Longrightarrow>
   settle service ctx seg True (Some (irreparableError r a i)) w =
     (Some (irreparableError r a i),
      emit (E_Error ''failed to add segment to irreparableDB! will leave in repair queue'' e2)
        w1)"
  by (simp add: settle_def classify_def)

lemma settle_irreparable_recorded:
  "record_irreparable service ctx seg r a i w = (None, w1) \<Longrightarrow>
   settle service ctx seg True (Some (irreparableError r a i)) w =
     remove_from_queue service ctx seg (Some (irreparableError r a i)) w1"
  by (simp add: settle_def classify_def)

lemma settle_unexpected:
  "\<not> is_irreparableError e \<Longrightarrow>
   settle service ctx seg True (Some e) w =
     remove_from_queue service ctx seg (Some e)
       (emit (E_Error ''unexpected error repairing segment!'' e) w)"
  by (cases e) (simp_all add: settle_def classify_def)

text \<open>Whatever \<^verbatim>\<open>Repair\<close> returned, the classification only logs and calls the stores.\<close>

lemma settle_events:
  assumes "settle service ctx seg sd err w = (err', w')"
  shows "\<exists>xs. events w' = events w @ xs \<and> list_all is_store_or_log xs"
proof (cases sd)
  case False
  with assms show ?thesis by (simp add: settle_False)
next
  case True
  show ?thesis
  proof (cases err)
    case None
    with assms True show ?thesis
      by (auto simp: settle_nil dest!: remove_from_queue_events)
  next
    case (Some e)
    show ?thesis
    proof (cases "is_irreparableError e")
      case False
      with assms True Some show ?thesis
        by (auto simp: settle_unexpected dest!: remove_from_queue_events)
    next
      case irr: True
      then obtain r a i where e: "e = irreparableError r a i" by (cases e) auto
      obtain e2 w1 where rec: "record_irreparable service ctx seg r a i w = (e2, w1)"
        by (cases "record_irreparable service ctx seg r a i w")
      note ev = record_irreparable_events[OF rec]
      show ?thesis
      proof (cases e2)
        case None
        with assms True Some e rec ev show ?thesis
          by (auto simp: settle_irreparable_recorded dest!: remove_from_queue_events)
      next
        case failed: (Some x)
        with assms True Some e rec ev show ?thesis
          by (auto simp: settle_irreparable_failed)
      qed
    qed
  qed
qed

lemma store_or_log_no_Observe: "list_all is_store_or_log xs \<Longrightarrow> filter is_Observe xs = []"
proof (induction xs)
  case Nil
  then show ?case by simp
next
  case (Cons x xs)
  then show ?case by (cases x) simp_all
qed

lemma store_or_log_no_Release: "list_all is_store_or_log xs \<Longrightarrow> filter is_Release xs = []"
proof (induction xs)
  case Nil
  then show ?case by simp
next
  case (Cons x xs)
  then show ?case by (cases x) simp_all
qed

lemma settle_no_observe:
  assumes "settle service ctx seg sd err w = (err', w')"
  shows "\<exists>xs. events w' = events w @ xs \<and> filter is_Observe xs = []"
  using settle_events[OF assms] store_or_log_no_Observe by blast

text \<open>A non-nil error of \<^verbatim>\<open>Repair\<close> stays, alone or combined with a failed removal.\<close>

lemma settle_keeps_error:
  assumes "settle service ctx seg sd (Some e) w = (err', w')"
  shows "err' = Some e \<or>
    (\<exists>d. err' = Some (errs_Combined e (Error_New ''failed to remove segment from queue: %v'' d)))"
proof (cases sd)
  case False
  with assms show ?thesis by (simp add: settle_False)
next
  case True
  show ?thesis
  proof (cases "is_irreparableError e")
    case False
    with assms True show ?thesis
      by (auto simp: settle_unexpected dest: remove_from_queue_err)
  next
    case irr: True
    then obtain r a i where e: "e = irreparableError r a i" by (cases e) auto
    obtain e2 w1 where rec: "record_irreparable service ctx seg r a i w = (e2, w1)"
      by (cases "record_irreparable service ctx seg r a i w")
    show ?thesis
    proof (cases e2)
      case None
      with assms True e rec show ?thesis
        by (auto simp: settle_irreparable_recorded dest: remove_from_queue_err)
    next
      case failed: (Some x)
      with assms True e rec show ?thesis
        by (auto simp: settle_irreparable_failed)
    qed
  qed
qed

lemma worker_eq:
  "run_repair service (TaskSpan ctx0) seg w = (t0, sd, err, w1) \<Longrightarrow>
   settle service (TaskSpan ctx0) seg sd err w1 = (err2, w2) \<Longrightarrow>
   worker service ctx0 seg w =
     (case err2 of
        Some e \<Rightarrow> (Some (Error_Wrap e), w2)
      | None \<Rightarrow> (None, observe_times service seg t0 w2))"
  by (simp add: worker_def)

lemma process_eq:
  "acquire_unit service (TaskSpan ctx0) w = (None, w1) \<Longrightarrow>
   fetch service (TaskSpan ctx0) w1 = (ctx2, seg, err, w2) \<Longrightarrow>
   process service ctx0 w =
     (case err of
        Some e \<Rightarrow> (Some e, emit (E_Cancel ctx2) (emit (E_Release 1) w2))
      | None \<Rightarrow> (None, emit (E_Go ctx2 seg)
                    (emit (E_Debug ''Retrieved segment from repair queue'') w2)))"
  by (simp add: process_def)

text \<open>The worker leaves the limiter alone.\<close>

lemma worker_no_Release:
  assumes "worker service ctx0 seg w = (err, w')"
  shows "\<exists>xs. events w' = events w @ xs \<and> filter is_Release xs = []"
proof -
  obtain t0 sd e w1 where r: "run_repair service (TaskSpan ctx0) seg w = (t0, sd, e, w1)"
    by (cases "run_repair service (TaskSpan ctx0) seg w")
  obtain err2 w2 where s: "settle service (TaskSpan ctx0) seg sd e w1 = (err2, w2)"
    by (cases "settle service (TaskSpan ctx0) seg sd e w1")
  from settle_events[OF s] obtain xs where
    xs: "events w2 = events w1 @ xs" "list_all is_store_or_log xs" by blast
  note nr = store_or_log_no_Release[OF xs(2)]
  note ev1 = run_repair_events[OF r]
  from assms obtain ys where "events w' = events w2 @ ys" "filter is_Release ys = []"
    by (cases err2) (auto simp: worker_eq[OF r s] observe_times_events)
  then have "events w' = events w @
      ([E_Debug ''Limiter running repair on segment'', E_Repair (TaskSpan ctx0) (GetPath seg)]
       @ xs @ ys)"
    and "filter is_Release
      ([E_Debug ''Limiter running repair on segment'', E_Repair (TaskSpan ctx0) (GetPath seg)]
       @ xs @ ys) = []"
    by (simp_all add: ev1 xs(1) nr)
  then show ?thesis by blast
qed

text \<open>
  A job gives back one unit, once, as its last step, after cancelling its context: the
  step \<open>Job_released\<close> of the goroutines.
\<close>

lemma job_releases_once:
  "filter is_Release (emitted w (job service ctx seg w)) = [E_Release 1] \<and>
   (\<exists>xs. emitted w (job service ctx seg w) = xs @ [E_Cancel ctx, E_Release 1])"
proof -
  obtain err w1 where wk: "worker service ctx seg w = (err, w1)"
    by (cases "worker service ctx seg w")
  from worker_no_Release[OF wk] obtain xs where
    xs: "events w1 = events w @ xs" "filter is_Release xs = []" by blast
  show ?thesis
    by (cases err) (simp_all add: job_def wk xs emitted_def)
qed

text \<open>Subtracting two non-negative counts does not wrap around.\<close>

lemma sint_sub_nonneg:
  fixes r a :: "'w::len word"
  assumes "0 \<le> sint r" "0 \<le> sint a"
  shows "sint (r - a) = sint r - sint a"
proof -
  have "sint r < 2 ^ (LENGTH('w) - 1)" "sint a < 2 ^ (LENGTH('w) - 1)"
    by (rule sint_lt)+
  with assms have "- (2 ^ (LENGTH('w) - 1)) \<le> sint r - sint a"
    and "sint r - sint a < 2 ^ (LENGTH('w) - 1)"
    by linarith+
  then have "signed_take_bit (LENGTH('w) - 1) (sint r - sint a) = sint r - sint a"
    by (rule signed_take_bit_int_eq_self)
  then show ?thesis by (simp add: sint_word_diff)
qed

subsection \<open>The invariant of the job limiter\<close>

lemma limiter_inv_NewService: "limiter_inv N NewService"
  by (simp add: limiter_inv_def NewService_def units_def)

lemma limiter_inv_act:
  assumes "limiter_inv N s" "act N a s = Some s'"
  shows "limiter_inv N s'"
proof (cases a)
  case (Job_released i)
  with assms show ?thesis
    by (auto simp: limiter_inv_def units_def Release_def Let_def min_def split: if_splits)
qed (use assms in \<open>auto simp: limiter_inv_def units_def Release_def Let_def can_acquire_def
      split: if_splits\<close>)

lemma limiter_inv_run:
  "limiter_inv N s \<Longrightarrow> run N as s = Some s' \<Longrightarrow> limiter_inv N s'"
proof (induction as arbitrary: s)
  case Nil
  then show ?case by simp
next
  case (Cons a as)
  then show ?case
    by (auto simp: step_def split: option.splits if_splits dest: limiter_inv_act)
qed

lemma limiter_inv_bound: "limiter_inv N s \<Longrightarrow> 0 \<le> N \<Longrightarrow> int (length (jobs s)) \<le> N"
  by (auto simp: limiter_inv_def units_def split: if_splits)

subsection \<open>Evaluation on the small service\<close>

lemmas example_defs = example_service_def example_world_def legacy_segment_def dated_segment_def
  run_repair_def record_irreparable_def Now_def call_def emit_def GetPath_def GetInsertedTime_def
  acquire_unit_def fetch_def context_WithTimeout_def Let_def Unix_def

lemmas worker_defs = worker_def settle_def classify_def remove_from_queue_def
  observe_times_def

section \<open>The worker\<close>

text \<open>
  C5. When \<^verbatim>\<open>Repair\<close> returns \<^verbatim>\<open>shouldDelete = true\<close> and a nil error, the worker
  calls \<^verbatim>\<open>Delete\<close> on the queue once, for that segment, and never calls the
  irreparable store.
\<close>

theorem worker_repaired_segment_deleted:
  assumes "run_repair service (TaskSpan ctx0) seg w = (t0, True, None, w1)"
  shows "filter is_Delete (emitted w (snd (worker service ctx0 seg w))) =
           [E_Delete (TaskSpan ctx0) seg] \<and>
         filter is_IncrementRepairAttempts (emitted w (snd (worker service ctx0 seg w))) = []"
proof -
  obtain err2 w2 where s: "settle service (TaskSpan ctx0) seg True None w1 = (err2, w2)"
    by (cases "settle service (TaskSpan ctx0) seg True None w1")
  from s have ev2: "events w2 = events w1 @
      [E_Debug ''removing repaired segment from repair queue'', E_Delete (TaskSpan ctx0) seg]"
    by (auto simp: settle_nil dest!: remove_from_queue_events)
  note ev1 = run_repair_events[OF assms]
  show ?thesis
    by (cases err2) (simp_all add: worker_eq[OF assms s] ev1 ev2 observe_times_events emitted_def)
qed

theorem worker_repaired_segment_deleted_witness:
  "run_repair (example_service (True, None) None None) (TaskSpan (Incoming 0)) legacy_segment
     (example_world []) =
     (63735596800000000000, True, None,
      \<lparr>ext = ([], 63735596800000001000),
       events = [E_Debug ''Limiter running repair on segment'',
                 E_Repair (TaskSpan (Incoming 0)) ''a/b'']\<rparr>) \<and>
   filter is_Delete (emitted (example_world [])
     (snd (worker (example_service (True, None) None None) (Incoming 0) legacy_segment
        (example_world [])))) = [E_Delete (TaskSpan (Incoming 0)) legacy_segment] \<and>
   filter is_IncrementRepairAttempts (emitted (example_world [])
     (snd (worker (example_service (True, None) None None) (Incoming 0) legacy_segment
        (example_world [])))) = []"
proof -
  have h: "run_repair (example_service (True, None) None None) (TaskSpan (Incoming 0))
      legacy_segment (example_world []) =
     (63735596800000000000, True, None,
      \<lparr>ext = ([], 63735596800000001000),
       events = [E_Debug ''Limiter running repair on segment'',
                 E_Repair (TaskSpan (Incoming 0)) ''a/b'']\<rparr>)"
    by (simp add: example_defs)
  from h worker_repaired_segment_deleted[OF h] show ?thesis by (rule conjI)
qed

text \<open>
  C3. When \<^verbatim>\<open>Repair\<close> returns \<^verbatim>\<open>shouldDelete = true\<close> with an
  \<^verbatim>\<open>*irreparableError\<close> and the irreparable store accepts the record, the calls of the
  worker on the two stores are the call of \<^verbatim>\<open>IncrementRepairAttempts\<close>, with a record
  whose \<^verbatim>\<open>LostPieces\<close> is \<^verbatim>\<open>piecesRequired - piecesAvailable\<close>, and then the call
  of \<^verbatim>\<open>Delete\<close> for the segment. The subtraction is the one of the machine integers,
  and for two non-negative counts it is the difference of the numbers (10 - 3 = 7).
\<close>

theorem worker_irreparable_recorded_and_deleted:
  assumes "run_repair service (TaskSpan ctx0) seg w =
             (t0, True, Some (irreparableError r a i), w1)"
    and "record_irreparable service (TaskSpan ctx0) seg r a i w1 = (None, w2)"
  shows "filter (\<lambda>e. is_IncrementRepairAttempts e \<or> is_Delete e)
           (emitted w (snd (worker service ctx0 seg w))) =
           [E_IncrementRepairAttempts (TaskSpan ctx0)
              \<lparr>Path = GetPath seg, SegmentDetail = i, LostPieces = r - a,
               LastRepairAttempt = Unix (fst (time_Now service (ext w1))),
               RepairAttemptCount = 1\<rparr>,
            E_Delete (TaskSpan ctx0) seg] \<and>
         map LostPieces (irreparable_records (emitted w (snd (worker service ctx0 seg w)))) =
           [r - a] \<and>
         (0 \<le> sint r \<and> 0 \<le> sint a \<longrightarrow>
          map (sint \<circ> LostPieces)
            (irreparable_records (emitted w (snd (worker service ctx0 seg w)))) =
            [sint r - sint a])"
proof -
  obtain err2 w3 where
    s: "settle service (TaskSpan ctx0) seg True (Some (irreparableError r a i)) w1 = (err2, w3)"
    by (cases "settle service (TaskSpan ctx0) seg True (Some (irreparableError r a i)) w1")
  note ev1 = run_repair_events[OF assms(1)]
  note ev2 = record_irreparable_events[OF assms(2)]
  from s have ev3: "events w3 = events w2 @ [E_Delete (TaskSpan ctx0) seg]"
    by (auto simp: settle_irreparable_recorded[OF assms(2)] dest!: remove_from_queue_events)
  from settle_keeps_error[OF s] show ?thesis
    by (auto simp: worker_eq[OF assms(1) s] ev1 ev2 ev3 emitted_def sint_sub_nonneg)
qed

theorem worker_irreparable_recorded_and_deleted_witness:
  "run_repair (example_service (True, Some (irreparableError 10 3 ''detail'')) None None)
     (TaskSpan (Incoming 0)) dated_segment (example_world []) =
     (63735596800000000000, True, Some (irreparableError 10 3 ''detail''),
      \<lparr>ext = ([], 63735596800000001000),
       events = [E_Debug ''Limiter running repair on segment'',
                 E_Repair (TaskSpan (Incoming 0)) ''c/d'']\<rparr>) \<and>
   fst (record_irreparable
     (example_service (True, Some (irreparableError 10 3 ''detail'')) None None)
     (TaskSpan (Incoming 0)) dated_segment 10 3 ''detail''
      \<lparr>ext = ([], 63735596800000001000),
       events = [E_Debug ''Limiter running repair on segment'',
                 E_Repair (TaskSpan (Incoming 0)) ''c/d'']\<rparr>) = None \<and>
   filter (\<lambda>e. is_IncrementRepairAttempts e \<or> is_Delete e)
     (emitted (example_world [])
       (snd (worker (example_service (True, Some (irreparableError 10 3 ''detail'')) None None)
          (Incoming 0) dated_segment (example_world [])))) =
     [E_IncrementRepairAttempts (TaskSpan (Incoming 0))
        \<lparr>Path = ''c/d'', SegmentDetail = ''detail'', LostPieces = 7,
         LastRepairAttempt = 1600000000, RepairAttemptCount = 1\<rparr>,
      E_Delete (TaskSpan (Incoming 0)) dated_segment] \<and>
   map (sint \<circ> LostPieces) (irreparable_records (emitted (example_world [])
       (snd (worker (example_service (True, Some (irreparableError 10 3 ''detail'')) None None)
          (Incoming 0) dated_segment (example_world []))))) = [7]"
proof -
  let ?S = "example_service (True, Some (irreparableError 10 3 ''detail'')) None None"
  let ?W1 = "\<lparr>ext = ([], 63735596800000001000),
       events = [E_Debug ''Limiter running repair on segment'',
                 E_Repair (TaskSpan (Incoming 0)) ''c/d'']\<rparr>
       :: (InjuredSegment list \<times> time, 32 word) world"
  have h1: "run_repair ?S (TaskSpan (Incoming 0)) dated_segment (example_world []) =
     (63735596800000000000, True, Some (irreparableError 10 3 ''detail''), ?W1)"
    by (simp add: example_defs)
  obtain w2 where h2: "record_irreparable ?S (TaskSpan (Incoming 0)) dated_segment 10 3 ''detail''
      ?W1 = (None, w2)"
    by (simp add: example_defs)
  have t: "fst (time_Now ?S ([], 63735596800000001000)) = 63735596800000001000"
    by (simp add: example_defs)
  have g: "GetPath dated_segment = ''c/d''"
    by (simp add: example_defs)
  have n: "(0::int) \<le> sint (10 :: 32 word) \<and> (0::int) \<le> sint (3 :: 32 word)"
    by simp
  from h1 h2 n worker_irreparable_recorded_and_deleted[OF h1 h2] show ?thesis
    by (simp add: t g Unix_def)
qed

text \<open>
  C4. When \<^verbatim>\<open>Repair\<close> returns \<^verbatim>\<open>shouldDelete = true\<close> with an
  \<^verbatim>\<open>*irreparableError\<close> and the irreparable store then fails, the worker does not call
  \<^verbatim>\<open>Delete\<close>: its calls and log lines are exactly the five listed, the last of which
  logs the error of the store, and the error it returns is the wrapped error of
  \<^verbatim>\<open>Repair\<close>, not the error of the store.
\<close>

theorem worker_store_failure_leaves_segment:
  assumes "run_repair service (TaskSpan ctx0) seg w =
             (t0, True, Some (irreparableError r a i), w1)"
    and "record_irreparable service (TaskSpan ctx0) seg r a i w1 = (Some e2, w2)"
  shows "emitted w (snd (worker service ctx0 seg w)) =
           [E_Debug ''Limiter running repair on segment'',
            E_Repair (TaskSpan ctx0) (GetPath seg),
            E_Error ''segment could not be repaired! adding to irreparableDB for more attention''
              (irreparableError r a i),
            E_IncrementRepairAttempts (TaskSpan ctx0)
              \<lparr>Path = GetPath seg, SegmentDetail = i, LostPieces = r - a,
               LastRepairAttempt = Unix (fst (time_Now service (ext w1))),
               RepairAttemptCount = 1\<rparr>,
            E_Error ''failed to add segment to irreparableDB! will leave in repair queue'' e2] \<and>
         filter is_Delete (emitted w (snd (worker service ctx0 seg w))) = [] \<and>
         fst (worker service ctx0 seg w) = Some (Error_Wrap (irreparableError r a i))"
proof -
  note s = settle_irreparable_failed[OF assms(2)]
  note ev1 = run_repair_events[OF assms(1)]
  note ev2 = record_irreparable_events[OF assms(2)]
  show ?thesis
    by (simp add: worker_eq[OF assms(1) s] ev1 ev2 emitted_def)
qed

theorem worker_store_failure_leaves_segment_witness:
  "run_repair (example_service (True, Some (irreparableError 10 3 ''detail''))
       (Some (Opaque ''db down'')) None)
     (TaskSpan (Incoming 0)) dated_segment (example_world []) =
     (63735596800000000000, True, Some (irreparableError 10 3 ''detail''),
      \<lparr>ext = ([], 63735596800000001000),
       events = [E_Debug ''Limiter running repair on segment'',
                 E_Repair (TaskSpan (Incoming 0)) ''c/d'']\<rparr>) \<and>
   fst (record_irreparable (example_service (True, Some (irreparableError 10 3 ''detail''))
       (Some (Opaque ''db down'')) None)
     (TaskSpan (Incoming 0)) dated_segment 10 3 ''detail''
      \<lparr>ext = ([], 63735596800000001000),
       events = [E_Debug ''Limiter running repair on segment'',
                 E_Repair (TaskSpan (Incoming 0)) ''c/d'']\<rparr>) = Some (Opaque ''db down'') \<and>
   filter is_Delete (emitted (example_world [])
     (snd (worker (example_service (True, Some (irreparableError 10 3 ''detail''))
       (Some (Opaque ''db down'')) None) (Incoming 0) dated_segment (example_world [])))) = [] \<and>
   last (emitted (example_world [])
     (snd (worker (example_service (True, Some (irreparableError 10 3 ''detail''))
       (Some (Opaque ''db down'')) None) (Incoming 0) dated_segment (example_world [])))) =
     E_Error ''failed to add segment to irreparableDB! will leave in repair queue''
       (Opaque ''db down'') \<and>
   fst (worker (example_service (True, Some (irreparableError 10 3 ''detail''))
       (Some (Opaque ''db down'')) None) (Incoming 0) dated_segment (example_world [])) =
     Some (Error_Wrap (irreparableError 10 3 ''detail''))"
proof -
  let ?S = "example_service (True, Some (irreparableError 10 3 ''detail''))
       (Some (Opaque ''db down'')) None"
  let ?W1 = "\<lparr>ext = ([], 63735596800000001000),
       events = [E_Debug ''Limiter running repair on segment'',
                 E_Repair (TaskSpan (Incoming 0)) ''c/d'']\<rparr>
       :: (InjuredSegment list \<times> time, 32 word) world"
  have h1: "run_repair ?S (TaskSpan (Incoming 0)) dated_segment (example_world []) =
     (63735596800000000000, True, Some (irreparableError 10 3 ''detail''), ?W1)"
    by (simp add: example_defs)
  obtain w2 where h2: "record_irreparable ?S (TaskSpan (Incoming 0)) dated_segment 10 3 ''detail''
      ?W1 = (Some (Opaque ''db down''), w2)"
    by (simp add: example_defs)
  from h1 h2 worker_store_failure_leaves_segment[OF h1 h2] show ?thesis by simp
qed

text \<open>
  C9. When \<^verbatim>\<open>Repair\<close> returns \<^verbatim>\<open>shouldDelete = false\<close>, with any error or none, the
  worker calls neither \<^verbatim>\<open>Delete\<close> on the queue nor the irreparable store.
\<close>

theorem worker_keeps_segment_untouched:
  assumes "run_repair service (TaskSpan ctx0) seg w = (t0, False, err, w1)"
  shows "filter is_Delete (emitted w (snd (worker service ctx0 seg w))) = [] \<and>
         filter is_IncrementRepairAttempts (emitted w (snd (worker service ctx0 seg w))) = []"
proof -
  have s: "settle service (TaskSpan ctx0) seg False err w1 = (err, w1)"
    by (rule settle_False)
  note ev1 = run_repair_events[OF assms]
  show ?thesis
    by (cases err) (simp_all add: worker_eq[OF assms s] ev1 observe_times_events emitted_def)
qed

theorem worker_keeps_segment_untouched_witness:
  "run_repair (example_service (False, Some (Opaque ''deadline exceeded'')) None None)
     (TaskSpan (Incoming 0)) dated_segment (example_world []) =
     (63735596800000000000, False, Some (Opaque ''deadline exceeded''),
      \<lparr>ext = ([], 63735596800000001000),
       events = [E_Debug ''Limiter running repair on segment'',
                 E_Repair (TaskSpan (Incoming 0)) ''c/d'']\<rparr>) \<and>
   filter is_Delete (emitted (example_world [])
     (snd (worker (example_service (False, Some (Opaque ''deadline exceeded'')) None None)
        (Incoming 0) dated_segment (example_world [])))) = [] \<and>
   filter is_IncrementRepairAttempts (emitted (example_world [])
     (snd (worker (example_service (False, Some (Opaque ''deadline exceeded'')) None None)
        (Incoming 0) dated_segment (example_world [])))) = []"
proof -
  have h: "run_repair (example_service (False, Some (Opaque ''deadline exceeded'')) None None)
     (TaskSpan (Incoming 0)) dated_segment (example_world []) =
     (63735596800000000000, False, Some (Opaque ''deadline exceeded''),
      \<lparr>ext = ([], 63735596800000001000),
       events = [E_Debug ''Limiter running repair on segment'',
                 E_Repair (TaskSpan (Incoming 0)) ''c/d'']\<rparr>)"
    by (simp add: example_defs)
  from h worker_keeps_segment_untouched[OF h] show ?thesis by (rule conjI)
qed

text \<open>
  C10. When \<^verbatim>\<open>Repair\<close> returns a non-nil error, the worker returns a non-nil error, the
  wrapped error of \<^verbatim>\<open>Repair\<close> (alone, or combined with the failure of the removal), and
  observes no time, whatever \<^verbatim>\<open>shouldDelete\<close> is and whatever the stores answer.
\<close>

theorem worker_repair_error_is_returned:
  assumes "run_repair service (TaskSpan ctx0) seg w = (t0, sd, Some e, w1)"
  shows "(fst (worker service ctx0 seg w) = Some (Error_Wrap e) \<or>
          (\<exists>d. fst (worker service ctx0 seg w) =
             Some (Error_Wrap (errs_Combined e
               (Error_New ''failed to remove segment from queue: %v'' d))))) \<and>
         filter is_Observe (emitted w (snd (worker service ctx0 seg w))) = []"
proof -
  obtain err2 w2 where s: "settle service (TaskSpan ctx0) seg sd (Some e) w1 = (err2, w2)"
    by (cases "settle service (TaskSpan ctx0) seg sd (Some e) w1")
  from settle_no_observe[OF s] obtain xs where
    xs: "events w2 = events w1 @ xs" "filter is_Observe xs = []" by blast
  note ev1 = run_repair_events[OF assms]
  from settle_keeps_error[OF s] show ?thesis
    by (auto simp: worker_eq[OF assms s] ev1 xs emitted_def)
qed

theorem worker_repair_error_is_returned_witness:
  "run_repair (example_service (True, Some (irreparableError 10 3 ''detail'')) None None)
     (TaskSpan (Incoming 0)) dated_segment (example_world []) =
     (63735596800000000000, True, Some (irreparableError 10 3 ''detail''),
      \<lparr>ext = ([], 63735596800000001000),
       events = [E_Debug ''Limiter running repair on segment'',
                 E_Repair (TaskSpan (Incoming 0)) ''c/d'']\<rparr>) \<and>
   fst (worker (example_service (True, Some (irreparableError 10 3 ''detail'')) None None)
        (Incoming 0) dated_segment (example_world [])) =
     Some (Error_Wrap (irreparableError 10 3 ''detail'')) \<and>
   filter is_Observe (emitted (example_world [])
     (snd (worker (example_service (True, Some (irreparableError 10 3 ''detail'')) None None)
        (Incoming 0) dated_segment (example_world [])))) = []"
proof -
  have h: "run_repair (example_service (True, Some (irreparableError 10 3 ''detail'')) None None)
     (TaskSpan (Incoming 0)) dated_segment (example_world []) =
     (63735596800000000000, True, Some (irreparableError 10 3 ''detail''),
      \<lparr>ext = ([], 63735596800000001000),
       events = [E_Debug ''Limiter running repair on segment'',
                 E_Repair (TaskSpan (Incoming 0)) ''c/d'']\<rparr>)"
    by (simp add: example_defs)
  have r: "fst (worker (example_service (True, Some (irreparableError 10 3 ''detail'')) None None)
        (Incoming 0) dated_segment (example_world [])) =
     Some (Error_Wrap (irreparableError 10 3 ''detail''))"
    by (simp add: worker_def settle_def classify_def remove_from_queue_def example_defs)
  from h r worker_repair_error_is_returned[OF h] show ?thesis by simp
qed

text \<open>
  C8. When the worker returns nil, its observations are these and no others: first
  \<^verbatim>\<open>time_for_repair\<close>, the repair duration, which is the clock reading taken after
  the classification minus the start time read at line 155; and then, only for a segment
  whose insertion time is not zero, \<^verbatim>\<open>time_since_checker_queue\<close>, the start time
  minus the insertion time. A segment with a zero insertion time gives exactly one
  observation.
\<close>

theorem worker_success_observations:
  assumes "fst (worker service ctx0 seg w) = None"
    and "run_repair service (TaskSpan ctx0) seg w = (workerStartTime, sd, err, w1)"
    and "settle service (TaskSpan ctx0) seg sd err w1 = (err2, w2)"
  shows "workerStartTime = fst (time_Now service (ext w)) \<and>
    filter is_Observe (emitted w (snd (worker service ctx0 seg w))) =
      (if IsZero (GetInsertedTime seg)
       then [E_Observe ''time_for_repair''
               (Sub (fst (time_Now service (ext w2))) workerStartTime)]
       else [E_Observe ''time_for_repair''
               (Sub (fst (time_Now service (ext w2))) workerStartTime),
             E_Observe ''time_since_checker_queue''
               (Sub workerStartTime (GetInsertedTime seg))])"
proof -
  note r = assms(2) and s = assms(3)
  from settle_no_observe[OF s] obtain xs where
    xs: "events w2 = events w1 @ xs" "filter is_Observe xs = []" by blast
  note ev1 = run_repair_events[OF r]
  from assms(1) have "err2 = None"
    by (simp add: worker_eq[OF r s] split: option.splits)
  then have "filter is_Observe (emitted w (snd (worker service ctx0 seg w))) =
      (if IsZero (GetInsertedTime seg)
       then [E_Observe ''time_for_repair''
               (Sub (fst (time_Now service (ext w2))) workerStartTime)]
       else [E_Observe ''time_for_repair''
               (Sub (fst (time_Now service (ext w2))) workerStartTime),
             E_Observe ''time_since_checker_queue''
               (Sub workerStartTime (GetInsertedTime seg))])"
    by (simp add: worker_eq[OF r s] ev1 xs observe_times_events emitted_def)
  with run_repair_start[OF r] show ?thesis by simp
qed

theorem worker_success_observations_witness:
  "fst (worker (example_service (True, None) None None) (Incoming 0) legacy_segment
     (example_world [])) = None \<and>
   IsZero (GetInsertedTime legacy_segment) \<and>
   filter is_Observe (emitted (example_world [])
      (snd (worker (example_service (True, None) None None) (Incoming 0) legacy_segment
         (example_world [])))) = [E_Observe ''time_for_repair'' 1000] \<and>
   fst (worker (example_service (True, None) None None) (Incoming 0) dated_segment
     (example_world [])) = None \<and>
   \<not> IsZero (GetInsertedTime dated_segment) \<and>
   filter is_Observe (emitted (example_world [])
      (snd (worker (example_service (True, None) None None) (Incoming 0) dated_segment
         (example_world [])))) =
      [E_Observe ''time_for_repair'' 1000,
       E_Observe ''time_since_checker_queue'' 3600000000000]"
proof -
  let ?S = "example_service (True, None) None None"
  let ?T0 = "63735596800000000000 :: time"
  let ?W1 = "\<lambda>p. \<lparr>ext = ([], 63735596800000001000),
       events = [E_Debug ''Limiter running repair on segment'',
                 E_Repair (TaskSpan (Incoming 0)) p]\<rparr>
       :: (InjuredSegment list \<times> time, 32 word) world"
  let ?W2 = "\<lambda>seg. \<lparr>ext = ([], 63735596800000001000),
       events = [E_Debug ''Limiter running repair on segment'',
                 E_Repair (TaskSpan (Incoming 0)) (seg_Path seg),
                 E_Debug ''removing repaired segment from repair queue'',
                 E_Delete (TaskSpan (Incoming 0)) seg]\<rparr>
       :: (InjuredSegment list \<times> time, 32 word) world"
  have h1: "fst (worker ?S (Incoming 0) legacy_segment (example_world [])) = None"
    by (simp add: worker_defs example_defs)
  have h2: "fst (worker ?S (Incoming 0) dated_segment (example_world [])) = None"
    by (simp add: worker_defs example_defs)
  have r1: "run_repair ?S (TaskSpan (Incoming 0)) legacy_segment (example_world []) =
      (?T0, True, None, ?W1 ''a/b'')"
    by (simp add: example_defs)
  have r2: "run_repair ?S (TaskSpan (Incoming 0)) dated_segment (example_world []) =
      (?T0, True, None, ?W1 ''c/d'')"
    by (simp add: example_defs)
  have s1: "settle ?S (TaskSpan (Incoming 0)) legacy_segment True None (?W1 ''a/b'') =
      (None, ?W2 legacy_segment)"
    by (simp add: worker_defs example_defs)
  have s2: "settle ?S (TaskSpan (Incoming 0)) dated_segment True None (?W1 ''c/d'') =
      (None, ?W2 dated_segment)"
    by (simp add: worker_defs example_defs)
  have z1: "IsZero (GetInsertedTime legacy_segment)"
    by (simp add: IsZero_def example_defs)
  have z2: "\<not> IsZero (GetInsertedTime dated_segment)"
    by (simp add: IsZero_def example_defs)
  have t: "Sub (fst (time_Now ?S ([], 63735596800000001000))) ?T0 = 1000"
    "Sub ?T0 (GetInsertedTime dated_segment) = 3600000000000"
    by (simp_all add: Sub_def minDuration_def maxDuration_def example_defs)
  from worker_success_observations[OF h1 r1 s1] worker_success_observations[OF h2 r2 s2]
    h1 h2 z1 z2
  show ?thesis by (simp add: t)
qed

section \<open>The dispatch step and the drain loop\<close>

text \<open>
  C2. In every run of the dispatch step, either the unit is not acquired and the step
  calls nothing else, or its first three calls are, in this order, \<^verbatim>\<open>Acquire\<close>,
  \<^verbatim>\<open>context.WithTimeout\<close> with \<^verbatim>\<open>TotalTimeout\<close>, and \<^verbatim>\<open>Select\<close>, which is the
  only call of \<^verbatim>\<open>Select\<close> and receives the derived context, whose deadline is the
  clock reading taken after \<^verbatim>\<open>Acquire\<close> returned plus \<^verbatim>\<open>TotalTimeout\<close>.
\<close>

theorem process_deadline_before_Select:
  assumes "acquire_unit service (TaskSpan ctx0) w = (aerr, w1)"
  shows "case aerr of
      Some e \<Rightarrow> emitted w (snd (process service ctx0 w)) = [E_Acquire (TaskSpan ctx0) 1]
    | None \<Rightarrow> (\<exists>rest. emitted w (snd (process service ctx0 w)) =
         [E_Acquire (TaskSpan ctx0) 1,
          E_WithTimeout (TaskSpan ctx0) (TotalTimeout (config service)),
          E_Select (WithDeadline (TaskSpan ctx0)
             (fst (time_Now service (ext w1)) + TotalTimeout (config service)))] @ rest
         \<and> filter is_Select rest = [])"
proof (cases aerr)
  case (Some e)
  with assms acquire_unit_events[OF assms] show ?thesis
    by (simp add: process_def emitted_def)
next
  case None
  obtain ctx2 seg err w2 where f: "fetch service (TaskSpan ctx0) w1 = (ctx2, seg, err, w2)"
    by (cases "fetch service (TaskSpan ctx0) w1")
  note a = assms[unfolded None]
  note ev1 = acquire_unit_events[OF a]
  note ev2 = fetch_events[OF f]
  show ?thesis
    by (cases err) (simp_all add: None process_eq[OF a f] ev1 ev2 emitted_def)
qed

theorem process_deadline_before_Select_witness:
  "acquire_unit (example_service (True, None) None None) (TaskSpan (Incoming 0))
     (example_world [dated_segment]) =
     (None, \<lparr>ext = ([dated_segment], 63735596800000000000),
             events = [E_Acquire (TaskSpan (Incoming 0)) 1]\<rparr>) \<and>
   (\<exists>rest. emitted (example_world [dated_segment])
     (snd (process (example_service (True, None) None None) (Incoming 0)
        (example_world [dated_segment]))) =
     [E_Acquire (TaskSpan (Incoming 0)) 1,
      E_WithTimeout (TaskSpan (Incoming 0)) 2700000000000,
      E_Select (WithDeadline (TaskSpan (Incoming 0))
        (63735596800000000000 + 2700000000000))] @ rest \<and> filter is_Select rest = [])"
proof -
  let ?S = "example_service (True, None) None None"
  let ?W1 = "\<lparr>ext = ([dated_segment], 63735596800000000000),
              events = [E_Acquire (TaskSpan (Incoming 0)) 1]\<rparr>
              :: (InjuredSegment list \<times> time, 32 word) world"
  have h: "acquire_unit ?S (TaskSpan (Incoming 0)) (example_world [dated_segment]) = (None, ?W1)"
    by (simp add: example_defs)
  have c: "TotalTimeout (config ?S) = 2700000000000"
    "fst (time_Now ?S ([dated_segment], 63735596800000000000)) = 63735596800000000000"
    by (simp_all add: example_service_def)
  from h process_deadline_before_Select[OF h] show ?thesis
    by (simp add: c)
qed

text \<open>
  C7. When the unit is acquired and \<^verbatim>\<open>Select\<close> returns a non-nil error, the dispatch
  step returns that error unchanged; after the call of \<^verbatim>\<open>Select\<close> it releases one
  unit, once, and cancels the context it derived, and it starts no job.
\<close>

theorem process_Select_error_releases_once:
  assumes "acquire_unit service (TaskSpan ctx0) w = (None, w1)"
    and "fetch service (TaskSpan ctx0) w1 = (ctx2, seg, Some e, w2)"
  shows "fst (process service ctx0 w) = Some e \<and>
    emitted w (snd (process service ctx0 w)) =
      [E_Acquire (TaskSpan ctx0) 1,
       E_WithTimeout (TaskSpan ctx0) (TotalTimeout (config service)),
       E_Select ctx2, E_Release 1, E_Cancel ctx2] \<and>
    filter is_Release (emitted w (snd (process service ctx0 w))) = [E_Release 1] \<and>
    filter is_Go (emitted w (snd (process service ctx0 w))) = []"
proof -
  note ev1 = acquire_unit_events[OF assms(1)]
  from fetch_events[OF assms(2)] have ev2: "events w2 = events w1 @
      [E_WithTimeout (TaskSpan ctx0) (TotalTimeout (config service)), E_Select ctx2]"
    by simp
  show ?thesis
    by (simp add: process_eq[OF assms] ev1 ev2 emitted_def)
qed

theorem process_Select_error_releases_once_witness:
  "acquire_unit (example_service (True, None) None None) (TaskSpan (Incoming 0))
     (example_world []) =
     (None, \<lparr>ext = ([], 63735596800000000000),
             events = [E_Acquire (TaskSpan (Incoming 0)) 1]\<rparr>) \<and>
   fetch (example_service (True, None) None None) (TaskSpan (Incoming 0))
     \<lparr>ext = ([], 63735596800000000000), events = [E_Acquire (TaskSpan (Incoming 0)) 1]\<rparr> =
     (WithDeadline (TaskSpan (Incoming 0)) 63735599500000000000,
      \<lparr>seg_Path = [], seg_InsertedTime = 0\<rparr>, Some (Opaque ''empty queue''),
      \<lparr>ext = ([], 63735596800000001000),
       events = [E_Acquire (TaskSpan (Incoming 0)) 1,
                 E_WithTimeout (TaskSpan (Incoming 0)) 2700000000000,
                 E_Select (WithDeadline (TaskSpan (Incoming 0)) 63735599500000000000)]\<rparr>) \<and>
   fst (process (example_service (True, None) None None) (Incoming 0) (example_world [])) =
     Some (Opaque ''empty queue'') \<and>
   emitted (example_world [])
     (snd (process (example_service (True, None) None None) (Incoming 0) (example_world []))) =
     [E_Acquire (TaskSpan (Incoming 0)) 1,
      E_WithTimeout (TaskSpan (Incoming 0)) 2700000000000,
      E_Select (WithDeadline (TaskSpan (Incoming 0)) 63735599500000000000),
      E_Release 1,
      E_Cancel (WithDeadline (TaskSpan (Incoming 0)) 63735599500000000000)]"
proof -
  let ?S = "example_service (True, None) None None"
  let ?W1 = "\<lparr>ext = ([], 63735596800000000000),
              events = [E_Acquire (TaskSpan (Incoming 0)) 1]\<rparr>
              :: (InjuredSegment list \<times> time, 32 word) world"
  have h1: "acquire_unit ?S (TaskSpan (Incoming 0)) (example_world []) = (None, ?W1)"
    by (simp add: example_defs)
  have h2: "fetch ?S (TaskSpan (Incoming 0)) ?W1 =
     (WithDeadline (TaskSpan (Incoming 0)) 63735599500000000000,
      \<lparr>seg_Path = [], seg_InsertedTime = 0\<rparr>, Some (Opaque ''empty queue''),
      \<lparr>ext = ([], 63735596800000001000),
       events = [E_Acquire (TaskSpan (Incoming 0)) 1,
                 E_WithTimeout (TaskSpan (Incoming 0)) 2700000000000,
                 E_Select (WithDeadline (TaskSpan (Incoming 0)) 63735599500000000000)]\<rparr>)"
    by (simp add: example_defs)
  have c: "TotalTimeout (config ?S) = 2700000000000"
    by (simp add: example_defs)
  from h1 h2 process_Select_error_releases_once[OF h1 h2] show ?thesis
    by (simp add: c)
qed

text \<open>
  C6. The drain loop runs the dispatch step again after every step that returns nil. At
  the first step that returns an error it returns: nil, with nothing logged, when the
  error is the empty-queue error; otherwise the error itself, after logging it.
\<close>

theorem processWhileQueueHasItems_stops_at_first_error:
  assumes "dispatched service ctx n w = Some wn"
    and "process service ctx wn = (Some err, w')"
  shows "processWhileQueueHasItems ErrEmptyQueue_Has service ctx w =
    Some (if ErrEmptyQueue_Has err then (None, w')
          else (Some err, emit (E_Error ''process'' (Error_Wrap err)) w'))"
  using assms
proof (induction n arbitrary: w)
  case 0
  then show ?case
    by (subst processWhileQueueHasItems.simps) simp
next
  case (Suc n)
  then show ?case
    by (subst processWhileQueueHasItems.simps) (auto split: prod.splits option.splits)
qed

theorem processWhileQueueHasItems_stops_at_first_error_witness:
  "dispatched (example_service (True, None) None None) (Incoming 0) 1
     (example_world [dated_segment]) =
     Some \<lparr>ext = ([], 63735596800000001000),
           events = [E_Acquire (TaskSpan (Incoming 0)) 1,
                     E_WithTimeout (TaskSpan (Incoming 0)) 2700000000000,
                     E_Select (WithDeadline (TaskSpan (Incoming 0)) 63735599500000000000),
                     E_Debug ''Retrieved segment from repair queue'',
                     E_Go (WithDeadline (TaskSpan (Incoming 0)) 63735599500000000000)
                       dated_segment]\<rparr> \<and>
   processWhileQueueHasItems example_Has (example_service (True, None) None None) (Incoming 0)
     (example_world [dated_segment]) =
     Some (None,
       \<lparr>ext = ([], 63735596800000002000),
        events = [E_Acquire (TaskSpan (Incoming 0)) 1,
                  E_WithTimeout (TaskSpan (Incoming 0)) 2700000000000,
                  E_Select (WithDeadline (TaskSpan (Incoming 0)) 63735599500000000000),
                  E_Debug ''Retrieved segment from repair queue'',
                  E_Go (WithDeadline (TaskSpan (Incoming 0)) 63735599500000000000)
                    dated_segment,
                  E_Acquire (TaskSpan (Incoming 0)) 1,
                  E_WithTimeout (TaskSpan (Incoming 0)) 2700000000000,
                  E_Select (WithDeadline (TaskSpan (Incoming 0)) 63735599500000001000),
                  E_Release 1,
                  E_Cancel (WithDeadline (TaskSpan (Incoming 0)) 63735599500000001000)]\<rparr>) \<and>
   processWhileQueueHasItems (\<lambda>e. False) (example_service (True, None) None None) (Incoming 0)
     (example_world []) =
     Some (Some (Opaque ''empty queue''),
       \<lparr>ext = ([], 63735596800000001000),
        events = [E_Acquire (TaskSpan (Incoming 0)) 1,
                  E_WithTimeout (TaskSpan (Incoming 0)) 2700000000000,
                  E_Select (WithDeadline (TaskSpan (Incoming 0)) 63735599500000000000),
                  E_Release 1,
                  E_Cancel (WithDeadline (TaskSpan (Incoming 0)) 63735599500000000000),
                  E_Error ''process'' (Error_Wrap (Opaque ''empty queue''))]\<rparr>)"
proof -
  let ?S = "example_service (True, None) None None"
  let ?W1 = "\<lparr>ext = ([], 63735596800000001000),
           events = [E_Acquire (TaskSpan (Incoming 0)) 1,
                     E_WithTimeout (TaskSpan (Incoming 0)) 2700000000000,
                     E_Select (WithDeadline (TaskSpan (Incoming 0)) 63735599500000000000),
                     E_Debug ''Retrieved segment from repair queue'',
                     E_Go (WithDeadline (TaskSpan (Incoming 0)) 63735599500000000000)
                       dated_segment]\<rparr> :: (InjuredSegment list \<times> time, 32 word) world"
  let ?W2 = "\<lparr>ext = ([], 63735596800000002000),
        events = [E_Acquire (TaskSpan (Incoming 0)) 1,
                  E_WithTimeout (TaskSpan (Incoming 0)) 2700000000000,
                  E_Select (WithDeadline (TaskSpan (Incoming 0)) 63735599500000000000),
                  E_Debug ''Retrieved segment from repair queue'',
                  E_Go (WithDeadline (TaskSpan (Incoming 0)) 63735599500000000000)
                    dated_segment,
                  E_Acquire (TaskSpan (Incoming 0)) 1,
                  E_WithTimeout (TaskSpan (Incoming 0)) 2700000000000,
                  E_Select (WithDeadline (TaskSpan (Incoming 0)) 63735599500000001000),
                  E_Release 1,
                  E_Cancel (WithDeadline (TaskSpan (Incoming 0)) 63735599500000001000)]\<rparr>
                  :: (InjuredSegment list \<times> time, 32 word) world"
  let ?W3 = "\<lparr>ext = ([], 63735596800000001000),
        events = [E_Acquire (TaskSpan (Incoming 0)) 1,
                  E_WithTimeout (TaskSpan (Incoming 0)) 2700000000000,
                  E_Select (WithDeadline (TaskSpan (Incoming 0)) 63735599500000000000),
                  E_Release 1,
                  E_Cancel (WithDeadline (TaskSpan (Incoming 0)) 63735599500000000000)]\<rparr>
                  :: (InjuredSegment list \<times> time, 32 word) world"
  have d1: "dispatched ?S (Incoming 0) 1 (example_world [dated_segment]) = Some ?W1"
    by (simp add: process_def example_defs)
  have p1: "process ?S (Incoming 0) ?W1 = (Some (Opaque ''empty queue''), ?W2)"
    by (simp add: process_def example_defs)
  have d0: "dispatched ?S (Incoming 0) 0 (example_world []) = Some (example_world [])"
    by simp
  have p0: "process ?S (Incoming 0) (example_world []) = (Some (Opaque ''empty queue''), ?W3)"
    by (simp add: process_def example_defs)
  from d1
    processWhileQueueHasItems_stops_at_first_error[OF d1 p1, of example_Has]
    processWhileQueueHasItems_stops_at_first_error[OF d0 p0, of "\<lambda>e. False"]
  show ?thesis
    by (simp add: example_Has_def emit_def)
qed

section \<open>The bound on the running jobs\<close>

text \<open>
  C1. For a maximum concurrency \<^verbatim>\<open>MaxRepair = N\<close> that is not negative, in every state
  that the service reaches, by any interleaving of the steps of its goroutines, at most
  \<open>N\<close> jobs exist, hence at most \<open>N\<close> are inside \<^verbatim>\<open>Repair\<close>; and no
  \<^verbatim>\<open>Release\<close> has panicked.
\<close>

theorem limiter_bounds_running_jobs:
  assumes "0 \<le> N" and "run N as NewService = Some s"
  shows "int (length (filter (\<lambda>p. p = InRepair) (jobs s))) \<le> N \<and>
         int (length (jobs s)) \<le> N \<and> \<not> panicked s"
proof -
  have inv: "limiter_inv N s"
    using limiter_inv_NewService assms(2) by (rule limiter_inv_run)
  then have "int (length (jobs s)) \<le> N"
    using assms(1) by (rule limiter_inv_bound)
  moreover have "length (filter (\<lambda>p. p = InRepair) (jobs s)) \<le> length (jobs s)"
    by (rule length_filter_le)
  moreover from inv have "\<not> panicked s"
    by (simp add: limiter_inv_def)
  ultimately show ?thesis by linarith
qed

theorem limiter_bounds_running_jobs_witness:
  "(0::int) \<le> 2 \<and>
   run 2 [Acquire_ok, Select_ok, Acquire_ok, Select_ok, Repair_called 0, Repair_called 1]
     NewService =
     Some \<lparr>cur = 2, dispatcher = AtAcquire, jobs = [InRepair, InRepair], panicked = False\<rparr> \<and>
   int (length (filter (\<lambda>p. p = InRepair) [InRepair, InRepair])) \<le> 2 \<and>
   run 2 [Acquire_ok, Select_ok, Acquire_ok, Select_ok, Repair_called 0, Repair_called 1,
          Acquire_ok] NewService = None"
proof -
  have n: "(0::int) \<le> 2" by simp
  have r: "run 2 [Acquire_ok, Select_ok, Acquire_ok, Select_ok, Repair_called 0, Repair_called 1]
     NewService =
     Some \<lparr>cur = 2, dispatcher = AtAcquire, jobs = [InRepair, InRepair], panicked = False\<rparr>"
    by (simp add: step_def NewService_def can_acquire_def)
  have b: "run 2 [Acquire_ok, Select_ok, Acquire_ok, Select_ok, Repair_called 0, Repair_called 1,
          Acquire_ok] NewService = None"
    by (simp add: step_def NewService_def can_acquire_def)
  from n r b limiter_bounds_running_jobs[OF n r] show ?thesis by simp
qed

end
